theory Spec2Isabelle
  imports Main "HOL-Library.Word"
begin

section \<open>The colour-token enumeration of StyleDictionaryColor.h\<close>

text \<open>
  The header declares one C enumeration over \<open>NSInteger\<close> and an interface with two
  class methods:
  \<^verbatim>\<open>
  typedef NS_ENUM(NSInteger, StyleDictionaryColorName) {
  ColorsBlack,
  ColorsWhite,
  ColorsOrange100,
  ...
  ColorsTestNeutral900
  };

  @interface StyleDictionaryColor : NSObject
  + (NSArray *)values;
  + (UIColor *)color:(StyleDictionaryColorName)color;
  @end
  \<close>
  The enumeration is a datatype with one constructor per enumerator, in the order of
  the header (lines 12 to 52). \<open>NSInteger\<close> is \<open>long\<close>, 64 bits wide on the
  platforms the header is built for.
\<close>

type_synonym NSInteger = "64 word"

datatype StyleDictionaryColorName =
    ColorsBlack
  | ColorsWhite
  | ColorsOrange100
  | ColorsOrange200
  | ColorsOrange300
  | ColorsOrange400
  | ColorsOrange500
  | ColorsOrange600
  | ColorsOrange700
  | ColorsOrange800
  | ColorsOrange900
  | ColorsTestPrimary50
  | ColorsTestPrimary100
  | ColorsTestPrimary200
  | ColorsTestPrimary300
  | ColorsTestPrimary400
  | ColorsTestPrimary500
  | ColorsTestPrimary600
  | ColorsTestPrimary700
  | ColorsTestPrimary800
  | ColorsTestPrimary900
  | ColorsTestSecondary50
  | ColorsTestSecondary100
  | ColorsTestSecondary200
  | ColorsTestSecondary300
  | ColorsTestSecondary400
  | ColorsTestSecondary500
  | ColorsTestSecondary600
  | ColorsTestSecondary700
  | ColorsTestSecondary800
  | ColorsTestSecondary900
  | ColorsTestNeutral50
  | ColorsTestNeutral100
  | ColorsTestNeutral200
  | ColorsTestNeutral300
  | ColorsTestNeutral400
  | ColorsTestNeutral500
  | ColorsTestNeutral600
  | ColorsTestNeutral700
  | ColorsTestNeutral800
  | ColorsTestNeutral900

text \<open>The enumerator list of the declaration, in source order.\<close>

definition enumerators :: "StyleDictionaryColorName list" where
  "enumerators =
    [ColorsBlack,
     ColorsWhite,
     ColorsOrange100,
     ColorsOrange200,
     ColorsOrange300,
     ColorsOrange400,
     ColorsOrange500,
     ColorsOrange600,
     ColorsOrange700,
     ColorsOrange800,
     ColorsOrange900,
     ColorsTestPrimary50,
     ColorsTestPrimary100,
     ColorsTestPrimary200,
     ColorsTestPrimary300,
     ColorsTestPrimary400,
     ColorsTestPrimary500,
     ColorsTestPrimary600,
     ColorsTestPrimary700,
     ColorsTestPrimary800,
     ColorsTestPrimary900,
     ColorsTestSecondary50,
     ColorsTestSecondary100,
     ColorsTestSecondary200,
     ColorsTestSecondary300,
     ColorsTestSecondary400,
     ColorsTestSecondary500,
     ColorsTestSecondary600,
     ColorsTestSecondary700,
     ColorsTestSecondary800,
     ColorsTestSecondary900,
     ColorsTestNeutral50,
     ColorsTestNeutral100,
     ColorsTestNeutral200,
     ColorsTestNeutral300,
     ColorsTestNeutral400,
     ColorsTestNeutral500,
     ColorsTestNeutral600,
     ColorsTestNeutral700,
     ColorsTestNeutral800,
     ColorsTestNeutral900]"

text \<open>The identifier each enumerator is spelled with in the header.\<close>

fun name_of :: "StyleDictionaryColorName \<Rightarrow> string" where
  "name_of ColorsBlack = ''ColorsBlack''"
| "name_of ColorsWhite = ''ColorsWhite''"
| "name_of ColorsOrange100 = ''ColorsOrange100''"
| "name_of ColorsOrange200 = ''ColorsOrange200''"
| "name_of ColorsOrange300 = ''ColorsOrange300''"
| "name_of ColorsOrange400 = ''ColorsOrange400''"
| "name_of ColorsOrange500 = ''ColorsOrange500''"
| "name_of ColorsOrange600 = ''ColorsOrange600''"
| "name_of ColorsOrange700 = ''ColorsOrange700''"
| "name_of ColorsOrange800 = ''ColorsOrange800''"
| "name_of ColorsOrange900 = ''ColorsOrange900''"
| "name_of ColorsTestPrimary50 = ''ColorsTestPrimary50''"
| "name_of ColorsTestPrimary100 = ''ColorsTestPrimary100''"
| "name_of ColorsTestPrimary200 = ''ColorsTestPrimary200''"
| "name_of ColorsTestPrimary300 = ''ColorsTestPrimary300''"
| "name_of ColorsTestPrimary400 = ''ColorsTestPrimary400''"
| "name_of ColorsTestPrimary500 = ''ColorsTestPrimary500''"
| "name_of ColorsTestPrimary600 = ''ColorsTestPrimary600''"
| "name_of ColorsTestPrimary700 = ''ColorsTestPrimary700''"
| "name_of ColorsTestPrimary800 = ''ColorsTestPrimary800''"
| "name_of ColorsTestPrimary900 = ''ColorsTestPrimary900''"
| "name_of ColorsTestSecondary50 = ''ColorsTestSecondary50''"
| "name_of ColorsTestSecondary100 = ''ColorsTestSecondary100''"
| "name_of ColorsTestSecondary200 = ''ColorsTestSecondary200''"
| "name_of ColorsTestSecondary300 = ''ColorsTestSecondary300''"
| "name_of ColorsTestSecondary400 = ''ColorsTestSecondary400''"
| "name_of ColorsTestSecondary500 = ''ColorsTestSecondary500''"
| "name_of ColorsTestSecondary600 = ''ColorsTestSecondary600''"
| "name_of ColorsTestSecondary700 = ''ColorsTestSecondary700''"
| "name_of ColorsTestSecondary800 = ''ColorsTestSecondary800''"
| "name_of ColorsTestSecondary900 = ''ColorsTestSecondary900''"
| "name_of ColorsTestNeutral50 = ''ColorsTestNeutral50''"
| "name_of ColorsTestNeutral100 = ''ColorsTestNeutral100''"
| "name_of ColorsTestNeutral200 = ''ColorsTestNeutral200''"
| "name_of ColorsTestNeutral300 = ''ColorsTestNeutral300''"
| "name_of ColorsTestNeutral400 = ''ColorsTestNeutral400''"
| "name_of ColorsTestNeutral500 = ''ColorsTestNeutral500''"
| "name_of ColorsTestNeutral600 = ''ColorsTestNeutral600''"
| "name_of ColorsTestNeutral700 = ''ColorsTestNeutral700''"
| "name_of ColorsTestNeutral800 = ''ColorsTestNeutral800''"
| "name_of ColorsTestNeutral900 = ''ColorsTestNeutral900''"

subsection \<open>Enumerator values\<close>

text \<open>
  No enumerator of the header has an initialiser. C gives the first enumerator of such
  a list the value 0 and every later one the value of its predecessor plus one;
  \<open>enum_assign\<close> is that rule, on the underlying type \<open>NSInteger\<close>.
\<close>

fun enum_assign :: "NSInteger \<Rightarrow> 'a list \<Rightarrow> ('a \<times> NSInteger) list" where
  "enum_assign n [] = []"
| "enum_assign n (c # cs) = (c, n) # enum_assign (n + 1) cs"

definition rawValues :: "(StyleDictionaryColorName \<times> NSInteger) list" where
  "rawValues = enum_assign 0 enumerators"

definition rawValue :: "StyleDictionaryColorName \<Rightarrow> NSInteger option" where
  "rawValue c = map_of rawValues c"

subsection \<open>Ladder families and weights\<close>

text \<open>
  An identifier of the header ends in a (possibly empty) run of decimal digits, the
  weight of the token. What stands before it, without the category prefix
  \<open>Colors\<close> that every enumerator carries, is the family the token belongs to: a
  ladder is a family whose tokens carry weights.
\<close>

definition is_digit :: "char \<Rightarrow> bool" where
  "is_digit c = (c \<in> set ''0123456789'')"

definition digit_value :: "char \<Rightarrow> nat" where
  "digit_value c = of_char c - of_char (CHR ''0'')"

definition decimal :: "string \<Rightarrow> nat" where
  "decimal ds = foldl (\<lambda>n d. 10 * n + digit_value d) 0 ds"

definition weight_suffix :: "string \<Rightarrow> string" where
  "weight_suffix s = rev (takeWhile is_digit (rev s))"

definition base_name :: "string \<Rightarrow> string" where
  "base_name s = rev (dropWhile is_digit (rev s))"

definition weight :: "StyleDictionaryColorName \<Rightarrow> nat option" where
  "weight c =
     (let ds = weight_suffix (name_of c) in if ds = [] then None else Some (decimal ds))"

definition family :: "StyleDictionaryColorName \<Rightarrow> string" where
  "family c =
     (let b = base_name (name_of c) in if take 6 b = ''Colors'' then drop 6 b else b)"

text \<open>The weights of a family, in the order its tokens are declared.\<close>

definition family_weights :: "string \<Rightarrow> nat list" where
  "family_weights fam =
     List.map_filter weight (filter (\<lambda>c. family c = fam) enumerators)"

text \<open>The families that have a weighted token, in the order they first appear.\<close>

definition ladder_families :: "string list" where
  "ladder_families =
     remdups (map family (filter (\<lambda>c. weight c \<noteq> None) enumerators))"

section \<open>The accessors of the interface\<close>

text \<open>
  The header declares \<open>+values\<close> and \<open>+color:\<close>; their bodies, and the colour
  constants they return, are in the implementation file, which is not part of the
  sources. The platform colour type is the type variable \<open>'c\<close>, and the colour
  each token stands for is the parameter \<open>palette\<close>.
\<close>

text \<open>
  Modelled from the spec: the table of colour tokens (the implementation file that
  builds it is missing). A token is a pair of a name and its colour; the tokens are
  a fixed ordered set, in declaration order.
\<close>

type_synonym 'c token_table = "(StyleDictionaryColorName \<times> 'c) list"

text \<open>
  Modelled from the spec: the construction of the table, once, at load (the
  implementation file is missing): one token per declared name, in declaration order.
\<close>

definition load :: "(StyleDictionaryColorName \<Rightarrow> 'c) \<Rightarrow> 'c token_table" where
  "load palette = map (\<lambda>n. (n, palette n)) enumerators"

text \<open>
  Modelled from the spec: \<open>values()\<close> (the body of \<open>+values\<close> is missing) returns
  every token name in declaration order and has no side effects. The table is passed
  in and returned, so that an effect on it would show.
\<close>

definition values_seq ::
  "'c token_table \<Rightarrow> StyleDictionaryColorName list \<times> 'c token_table" where
  "values_seq tbl = (map fst tbl, tbl)"

text \<open>
  Modelled from the spec: \<open>resolve(name)\<close> (the body of \<open>+color:\<close> is missing) is
  a table lookup that returns the colour of the token with that name. \<open>None\<close> is
  the null result, of a name the table does not hold.
\<close>

definition resolve ::
  "'c token_table \<Rightarrow> StyleDictionaryColorName \<Rightarrow> 'c option \<times> 'c token_table" where
  "resolve tbl n = (map_of tbl n, tbl)"

text \<open>
  Modelled from the spec: the operations of the module are the two accessors the
  header declares (their bodies are missing); a call names one of them.
\<close>

datatype call = Values | Color StyleDictionaryColorName

text \<open>
  Modelled from the spec: the table a call leaves behind (the bodies of \<open>+values\<close>
  and \<open>+color:\<close> are missing), as the two accessors above return it.
\<close>

fun invoke :: "'c token_table \<Rightarrow> call \<Rightarrow> 'c token_table" where
  "invoke tbl Values = snd (values_seq tbl)"
| "invoke tbl (Color n) = snd (resolve tbl n)"

section \<open>Facts about the declaration\<close>

lemma enumerators_length: "length enumerators = 41"
  by (simp add: enumerators_def)

lemma enumerators_distinct: "distinct enumerators"
  by (simp add: enumerators_def)

lemma enumerators_complete: "set enumerators = UNIV"
proof -
  have "c \<in> set enumerators" for c
    by (cases c) (simp_all add: enumerators_def)
  then show ?thesis by blast
qed

lemma enumerators_ends:
  "hd enumerators = ColorsBlack \<and>
   take 3 enumerators = [ColorsBlack, ColorsWhite, ColorsOrange100] \<and>
   last enumerators = ColorsTestNeutral900"
  by (simp add: enumerators_def)

lemma name_of_distinct: "distinct (map name_of enumerators)"
  by (simp add: enumerators_def)

lemma rawValues_fst: "map fst rawValues = enumerators"
  by (simp add: rawValues_def enumerators_def)

lemma rawValues_sint: "map (sint \<circ> snd) rawValues = [0..40]"
  by (simp add: rawValues_def enumerators_def upto_rec1)

lemma rawValues_snd: "map snd rawValues = map word_of_nat [0..<41]"
  by (simp add: rawValues_def enumerators_def upt_rec)

lemma rawValue_range: "\<exists>v. rawValue c = Some v \<and> 0 \<le> sint v \<and> sint v \<le> 40"
  by (cases c) (simp_all add: rawValue_def rawValues_def enumerators_def)

lemma rawValue_enumerators: "map rawValue enumerators = map (Some \<circ> word_of_nat) [0..<41]"
  by (simp add: rawValue_def rawValues_def enumerators_def upt_rec)

text \<open>
  Claim C8. The enumerators get consecutive \<open>NSInteger\<close> values from 0: the values
  of the declaration, read in declaration order, are 0, 1, ..., 40, with
  \<open>ColorsBlack\<close> at 0 and \<open>ColorsTestNeutral900\<close> at 40. So the values rise strictly
  along the declaration, no two enumerators share one, and every enumerator has a
  value between 0 and 40.
\<close>

theorem enum_values_consecutive:
  "map fst rawValues = enumerators \<and>
   map (sint \<circ> snd) rawValues = [0..40] \<and>
   rawValue ColorsBlack = Some 0 \<and> rawValue ColorsTestNeutral900 = Some 40 \<and>
   sorted_wrt (<) (map (sint \<circ> snd) rawValues) \<and>
   distinct (map snd rawValues) \<and>
   (\<forall>c. \<exists>v. rawValue c = Some v \<and> 0 \<le> sint v \<and> sint v \<le> 40)"
proof -
  have a: "rawValue ColorsBlack = Some 0" "rawValue ColorsTestNeutral900 = Some 40"
    by (simp_all add: rawValue_def rawValues_def enumerators_def)
  have s: "sorted_wrt (<) (map (sint \<circ> snd) rawValues)"
    unfolding rawValues_sint by (simp add: upto_rec1)
  have d: "distinct (map snd rawValues)"
    unfolding rawValues_snd by (simp add: distinct_map upt_rec)
  show ?thesis
    using rawValues_fst rawValues_sint a s d rawValue_range by blast
qed

text \<open>
  Claim C3, as the header has it. The declaration lists 41 enumerators, all different
  and spelled differently, and the type has no other value. So a sequence \<open>vs\<close> that
  holds every declared token, as the one \<open>+values\<close> is to return, holds as many
  distinct names as there are declared tokens: exactly 41.
\<close>

theorem declared_token_count:
  "set vs = set enumerators \<Longrightarrow>
     card (set vs) = length enumerators \<and> length enumerators = 41 \<and>
     card (set (map name_of vs)) = 41 \<and>
     card (UNIV :: StyleDictionaryColorName set) = 41"
proof -
  assume v: "set vs = set enumerators"
  have c: "card (set enumerators) = length enumerators"
    using enumerators_distinct by (rule distinct_card)
  have n: "card (set (map name_of enumerators)) = length (map name_of enumerators)"
    using name_of_distinct by (rule distinct_card)
  have m: "set (map name_of vs) = set (map name_of enumerators)"
    using v by simp
  have "card (set (map name_of vs)) = card (set (map name_of enumerators))"
    by (simp only: m)
  also have "\<dots> = 41"
    using n by (simp add: enumerators_length)
  finally have k: "card (set (map name_of vs)) = 41" .
  have u: "card (UNIV :: StyleDictionaryColorName set) = 41"
    using c enumerators_length enumerators_complete by simp
  have "card (set vs) = length enumerators"
    using v c by simp
  then show ?thesis
    using k u enumerators_length by simp
qed

text \<open>A sequence that repeats a name still holds 41 distinct ones.\<close>

theorem declared_token_count_witness:
  "set (ColorsBlack # enumerators) = set enumerators \<and>
   card (set (ColorsBlack # enumerators)) = 41"
proof -
  have h: "set (ColorsBlack # enumerators) = set enumerators"
    using enumerators_complete by auto
  show ?thesis
    using h declared_token_count [OF h] by simp
qed

text \<open>The count the claim C3 names, 42, is not the number of declared tokens.\<close>

theorem declared_token_count_not_42:
  "length enumerators \<noteq> 42 \<and> card (set enumerators) \<noteq> 42"
proof -
  have "card (set enumerators) = length enumerators"
    using enumerators_distinct by (rule distinct_card)
  then show ?thesis by (simp add: enumerators_length)
qed

section \<open>Facts about the ladders\<close>

lemma ladder_families_eq:
  "ladder_families = [''Orange'', ''TestPrimary'', ''TestSecondary'', ''TestNeutral'']"
  by code_simp

lemma orange_weights:
  "family_weights ''Orange'' = [100, 200, 300, 400, 500, 600, 700, 800, 900]"
  by code_simp

lemma primary_weights:
  "family_weights ''TestPrimary'' = [50, 100, 200, 300, 400, 500, 600, 700, 800, 900]"
  by code_simp

lemma secondary_weights:
  "family_weights ''TestSecondary'' = [50, 100, 200, 300, 400, 500, 600, 700, 800, 900]"
  by code_simp

lemma neutral_weights:
  "family_weights ''TestNeutral'' = [50, 100, 200, 300, 400, 500, 600, 700, 800, 900]"
  by code_simp

text \<open>
  Claim C5. Every ladder family is one of Orange, TestPrimary, TestSecondary and
  TestNeutral, and its weights, in declaration order, rise strictly, hold no weight
  twice and leave no gap: they are 50, 100, 200, ..., 900 or 100, 200, ..., 900.
\<close>

theorem ladder_weights_monotone:
  "fam \<in> set ladder_families \<Longrightarrow>
     fam \<in> set [''Orange'', ''TestPrimary'', ''TestSecondary'', ''TestNeutral''] \<and>
     sorted_wrt (<) (family_weights fam) \<and> distinct (family_weights fam) \<and>
     (family_weights fam = [50, 100, 200, 300, 400, 500, 600, 700, 800, 900] \<or>
      family_weights fam = [100, 200, 300, 400, 500, 600, 700, 800, 900])"
  unfolding ladder_families_eq
  using orange_weights primary_weights secondary_weights neutral_weights
  by auto

theorem ladder_weights_monotone_witness:
  "''TestNeutral'' \<in> set ladder_families \<and>
   sorted_wrt (<) (family_weights ''TestNeutral'') \<and>
   distinct (family_weights ''TestNeutral'') \<and>
   family_weights ''TestNeutral'' = [50, 100, 200, 300, 400, 500, 600, 700, 800, 900]"
proof -
  have h: "''TestNeutral'' \<in> set ladder_families"
    by (simp add: ladder_families_eq)
  show ?thesis
    using h ladder_weights_monotone [OF h] by (simp add: neutral_weights)
qed

text \<open>
  Claim C9. The ladders do not share one range of weights: Orange has the nine weights
  100 to 900 and no weight 50; TestPrimary, TestSecondary and TestNeutral each have
  the ten weights 50, 100, ..., 900. These four are all the ladder families.
\<close>

theorem ladder_ranges:
  "family_weights ''Orange'' = [100, 200, 300, 400, 500, 600, 700, 800, 900] \<and>
   50 \<notin> set (family_weights ''Orange'') \<and>
   family_weights ''TestPrimary'' = [50, 100, 200, 300, 400, 500, 600, 700, 800, 900] \<and>
   family_weights ''TestSecondary'' = [50, 100, 200, 300, 400, 500, 600, 700, 800, 900] \<and>
   family_weights ''TestNeutral'' = [50, 100, 200, 300, 400, 500, 600, 700, 800, 900] \<and>
   ladder_families = [''Orange'', ''TestPrimary'', ''TestSecondary'', ''TestNeutral'']"
  by (simp add: orange_weights primary_weights secondary_weights neutral_weights
      ladder_families_eq)

section \<open>Facts about the accessors\<close>

lemma map_of_load: "n \<in> set ns \<Longrightarrow> map_of (map (\<lambda>n. (n, f n)) ns) n = Some (f n)"
  by (induction ns) auto

lemma resolve_load: "fst (resolve (load palette) t) = Some (palette t)"
  using enumerators_complete by (simp add: resolve_def load_def map_of_load)

lemma values_load: "fst (values_seq (load palette)) = enumerators"
  by (simp add: values_seq_def load_def comp_def)

lemma invoke_id: "invoke tbl c = tbl"
  by (cases c) (simp_all add: values_seq_def resolve_def)

lemma invoke_calls_id: "foldl invoke tbl calls = tbl"
  by (induction calls) (simp_all add: invoke_id)

lemma resolvable_load: "{n. fst (resolve (load palette) n) \<noteq> None} = set enumerators"
  by (simp add: resolve_load enumerators_complete)

text \<open>
  Claim C4. Token names are unique: no enumerator is declared twice, no two
  enumerators are spelled alike, and \<open>values()\<close> returns no name twice. The set is
  closed: the declared enumerators are all the values of the type, finitely many. No
  operation inserts or removes a token: whatever sequence of calls of the two
  accessors has run, on any table, \<open>values()\<close> returns the names it returned before
  and \<open>resolve\<close> resolves the names it resolved before; on the loaded table both sets
  are the set of declared names, at every point of the execution.
\<close>

theorem token_names_unique_closed:
  "distinct enumerators \<and> distinct (map name_of enumerators) \<and> inj name_of \<and>
   set enumerators = UNIV \<and> finite (UNIV :: StyleDictionaryColorName set) \<and>
   distinct (fst (values_seq (load palette))) \<and>
   fst (values_seq (foldl invoke tbl calls)) = fst (values_seq tbl) \<and>
   {n. fst (resolve (foldl invoke tbl calls) n) \<noteq> None} =
     {n. fst (resolve tbl n) \<noteq> None} \<and>
   set (fst (values_seq (foldl invoke (load palette) calls))) = set enumerators \<and>
   {n. fst (resolve (foldl invoke (load palette) calls) n) \<noteq> None} = set enumerators"
proof -
  have i: "inj_on name_of (set enumerators)"
    using name_of_distinct enumerators_distinct by (simp add: distinct_map)
  have f: "finite (UNIV :: StyleDictionaryColorName set)"
    unfolding enumerators_complete [symmetric] by (rule finite_set)
  have static: "distinct enumerators \<and> distinct (map name_of enumerators) \<and>
      inj name_of \<and> set enumerators = UNIV \<and>
      finite (UNIV :: StyleDictionaryColorName set)"
    using i f enumerators_distinct name_of_distinct enumerators_complete by simp
  have v: "distinct (fst (values_seq (load palette)))"
    unfolding values_load by (rule enumerators_distinct)
  have k: "foldl invoke (load palette) calls = load palette"
    by (rule invoke_calls_id)
  have o: "set (fst (values_seq (foldl invoke (load palette) calls))) = set enumerators"
    unfolding k values_load by (rule refl)
  have r: "{n. fst (resolve (foldl invoke (load palette) calls) n) \<noteq> None}
      = set enumerators"
    unfolding k by (rule resolvable_load)
  have g: "fst (values_seq (foldl invoke tbl calls)) = fst (values_seq tbl)"
    "{n. fst (resolve (foldl invoke tbl calls) n) \<noteq> None} =
       {n. fst (resolve tbl n) \<noteq> None}"
    by (simp_all only: invoke_calls_id)
  show ?thesis
    using static v g o r by blast
qed

text \<open>
  Claim C1. On the loaded table the lookup is total: every token name has exactly one
  colour, no name gives the null result, and in particular every name that
  \<open>values()\<close> returns resolves to a colour.
\<close>

theorem resolve_total:
  "(\<exists>!c. fst (resolve (load palette) t) = Some c) \<and>
   (\<forall>t \<in> set (fst (values_seq (load palette))). fst (resolve (load palette) t) \<noteq> None)"
  by (simp add: resolve_load)

theorem resolve_total_witness:
  "ColorsOrange500 \<in> set (fst (values_seq (load name_of))) \<and>
   fst (resolve (load name_of) ColorsOrange500) \<noteq> None \<and>
   (\<exists>!c. fst (resolve (load name_of) ColorsOrange500) = Some c)"
proof -
  have h: "ColorsOrange500 \<in> set (fst (values_seq (load name_of)))"
    by (simp add: values_load enumerators_def)
  show ?thesis
    using h resolve_total [of name_of ColorsOrange500] by blast
qed

text \<open>
  Claim C2. \<open>values()\<close> on the loaded table returns the declared names in the order of
  the declaration: the sequence starts \<open>ColorsBlack\<close>, \<open>ColorsWhite\<close>,
  \<open>ColorsOrange100\<close>, ends with \<open>ColorsTestNeutral900\<close>, holds every name of the type,
  has 41 entries, and its enumerator values are 0, 1, ..., 40 in this order. The call
  leaves the table as it was, and a second call returns the same sequence.
\<close>

theorem values_declaration_order:
  "fst (values_seq (load palette)) = enumerators \<and>
   hd (fst (values_seq (load palette))) = ColorsBlack \<and>
   take 3 (fst (values_seq (load palette))) = [ColorsBlack, ColorsWhite, ColorsOrange100] \<and>
   last (fst (values_seq (load palette))) = ColorsTestNeutral900 \<and>
   set (fst (values_seq (load palette))) = UNIV \<and>
   length (fst (values_seq (load palette))) = 41 \<and>
   map rawValue (fst (values_seq (load palette))) = map (Some \<circ> word_of_nat) [0..<41] \<and>
   snd (values_seq (load palette)) = load palette \<and>
   fst (values_seq (snd (values_seq (load palette)))) = fst (values_seq (load palette))"
proof -
  have s: "snd (values_seq (load palette)) = load palette"
    by (simp add: values_seq_def)
  show ?thesis
    unfolding s unfolding values_load
    using rawValue_enumerators enumerators_ends enumerators_complete enumerators_length
    by simp
qed

text \<open>
  Claim C7. The table is read-only after it is loaded: a call of \<open>values()\<close>, a call
  of \<open>resolve\<close> and any sequence of calls of the two leave the table as it was, so
  \<open>resolve\<close> gives the same colour after the calls as before them.
\<close>

theorem table_read_only:
  "snd (values_seq tbl) = tbl \<and> snd (resolve tbl n) = tbl \<and>
   foldl invoke tbl calls = tbl \<and>
   fst (resolve (foldl invoke tbl calls) n) = fst (resolve tbl n)"
proof -
  have "foldl invoke tbl calls = tbl"
    by (induction calls) (simp_all add: invoke_id)
  then show ?thesis
    by (simp add: values_seq_def resolve_def)
qed

end
